theory Spec2Isabelle
  imports Complex_Main "HOL-Library.Multiset"
begin

section \<open>Robust regression on the simplex: PGD and mirror descent\<close>

text \<open>
  A shallow embedding of the numeric core of \<^verbatim>\<open>RobustRegressionMDAvsPGD.ipynb\<close>:
  \<^verbatim>\<open>objective\<close>, \<^verbatim>\<open>subgrad\<close>, \<^verbatim>\<open>pgd\<close> with its nested
  \<^verbatim>\<open>project_onto_simplex\<close>, and \<^verbatim>\<open>mda\<close>.

  Numbers. The notebook computes in IEEE binary64. The projection onto the simplex is
  embedded over an arbitrary floating-point arithmetic: its operations are parameters
  (\<open>float_ops\<close>), so that what is proved of it for every arithmetic holds of the rounded
  one. The rest of the embedding computes in the reals: rounding, overflow and underflow
  are not modelled there, and the concrete runs below are chosen so that binary64 returns
  the same results. The special values that the code produces from finite data by
  dividing by zero or taking the root of a negative number (\<^verbatim>\<open>inf\<close>,
  \<^verbatim>\<open>nan\<close>) are modelled, as \<open>None\<close> in an option type: a step size \<open>None\<close> is a
  step size that is infinite or not a number, an iterate \<open>None\<close> is a column of the
  result that holds a value that is not finite.

  Shapes. A matrix is the list of its rows; \<open>A\<close> is \<open>n \<times> m\<close>, the target \<open>b\<close> is the column
  of length \<open>n\<close> that \<^verbatim>\<open>gen_data\<close> builds, and the initial point has length \<open>m\<close>.
  numpy rejects or broadcasts other shapes; the theorems below assume the shapes of a
  problem instance wherever the shape matters.
\<close>

type_synonym vec = "real list"
type_synonym matrix = "real list list"

datatype error = AssertionError | ZeroDivisionError | IndexError | ValueError | OverflowError

subsection \<open>Array primitives\<close>

definition ncols :: "matrix \<Rightarrow> nat" where
  "ncols A = (case A of [] \<Rightarrow> 0 | r # _ \<Rightarrow> length r)"

definition dot :: "vec \<Rightarrow> vec \<Rightarrow> real" where
  "dot r x = sum_list (map2 (*) r x)"

definition column :: "matrix \<Rightarrow> nat \<Rightarrow> vec" where
  "column A j = map (\<lambda>r. r ! j) A"

text \<open>\<^verbatim>\<open>A @ x\<close> for a column \<open>x\<close>.\<close>

definition matvec :: "matrix \<Rightarrow> vec \<Rightarrow> vec" where
  "matvec A x = map (\<lambda>r. dot r x) A"

text \<open>\<^verbatim>\<open>A.T @ s\<close> for a column \<open>s\<close>.\<close>

definition transpose_matvec :: "matrix \<Rightarrow> vec \<Rightarrow> vec" where
  "transpose_matvec A s = map (\<lambda>j. dot (column A j) s) [0..<ncols A]"

text \<open>\<^verbatim>\<open>A.T @ A\<close>.\<close>

definition AtA :: "matrix \<Rightarrow> matrix" where
  "AtA A = map (\<lambda>j. map (\<lambda>k. dot (column A j) (column A k)) [0..<ncols A]) [0..<ncols A]"

text \<open>
  The floating-point operations of \<^verbatim>\<open>project_onto_simplex\<close>, on values of a type
  \<open>'f\<close>: addition, subtraction, division, the comparison \<open><\<close>, \<^verbatim>\<open>np.maximum\<close>,
  \<^verbatim>\<open>np.sort\<close> (ascending) and the conversion of an integer.
\<close>

record 'f float_ops =
  f_add :: "'f \<Rightarrow> 'f \<Rightarrow> 'f"
  f_sub :: "'f \<Rightarrow> 'f \<Rightarrow> 'f"
  f_div :: "'f \<Rightarrow> 'f \<Rightarrow> 'f"
  f_less :: "'f \<Rightarrow> 'f \<Rightarrow> bool"
  f_max :: "'f \<Rightarrow> 'f \<Rightarrow> 'f"
  f_sort :: "'f list \<Rightarrow> 'f list"
  f_of_nat :: "nat \<Rightarrow> 'f"

text \<open>The arithmetic without rounding, on the reals.\<close>

definition exact_ops :: "real float_ops" where
  "exact_ops =
     \<lparr>f_add = (+), f_sub = (-), f_div = (/), f_less = (<), f_max = max, f_sort = sort,
      f_of_nat = real\<rparr>"

text \<open>
  \<^verbatim>\<open>np.cumsum\<close>: the first entry as it is, then each entry added to the sum so far.
\<close>

fun cumsum_from :: "'f float_ops \<Rightarrow> 'f \<Rightarrow> 'f list \<Rightarrow> 'f list" where
  "cumsum_from fl acc [] = []"
| "cumsum_from fl acc (a # as) = f_add fl acc a # cumsum_from fl (f_add fl acc a) as"

definition cumsum :: "'f float_ops \<Rightarrow> 'f list \<Rightarrow> 'f list" where
  "cumsum fl xs = (case xs of [] \<Rightarrow> [] | a # as \<Rightarrow> a # cumsum_from fl a as)"

text \<open>\<^verbatim>\<open>np.ones(m)/m\<close>.\<close>

definition uniform :: "nat \<Rightarrow> vec" where
  "uniform m = replicate m (1 / real m)"

text \<open>Python's \<^verbatim>\<open>round\<close> of a float: to the nearest integer, a tie to the even one.\<close>

definition py_round :: "real \<Rightarrow> int" where
  "py_round r =
     (let f = \<lfloor>r\<rfloor>; d = r - of_int f
      in if d < 1 / 2 then f else if 1 / 2 < d then f + 1 else if even f then f else f + 1)"

subsection \<open>Objective and subgradient\<close>

text \<open>
  \<^verbatim>\<open>
  def objective(A, b, x):
      x = x.reshape(-1,1)
      return (1/len(x)) * np.linalg.norm(A @ x - b, ord=1)
  \<close>
  The residual is an \<open>n \<times> 1\<close> matrix, whose \<^verbatim>\<open>ord=1\<close> norm is the sum of the absolute
  values of its single column. \<^verbatim>\<open>1/len(x)\<close> divides Python integers and raises for
  an empty \<open>x\<close>.
\<close>

definition objective :: "matrix \<Rightarrow> vec \<Rightarrow> vec \<Rightarrow> error + real" where
  "objective A b x =
     (if length x = 0 then Inl ZeroDivisionError
      else Inr ((1 / real (length x)) * sum_list (map abs (map2 (-) (matvec A x) b))))"

text \<open>
  \<^verbatim>\<open>
  def subgrad(A, b, x):
      x = x.reshape(-1,1)
      return (1/len(x))*(A.T @ np.sign(A @ x - b)).reshape(-1)
  \<close>
  \<^verbatim>\<open>np.sign\<close> is \<open>-1\<close>, \<open>0\<close> or \<open>1\<close>, as \<^const>\<open>sgn\<close> on the reals.
\<close>

definition subgrad :: "matrix \<Rightarrow> vec \<Rightarrow> vec \<Rightarrow> error + vec" where
  "subgrad A b x =
     (if length x = 0 then Inl ZeroDivisionError
      else Inr (map (\<lambda>v. (1 / real (length x)) * v)
                  (transpose_matvec A (map sgn (map2 (-) (matvec A x) b)))))"

subsection \<open>Projection onto the simplex\<close>

text \<open>
  \<^verbatim>\<open>
  def project_onto_simplex(v):
      n = len(v)
      u = np.sort(v)[::-1]
      cssv = np.cumsum(u) - 1
      rho = np.nonzero(u > (cssv / np.arange(1, n+1)))[-1][-1]
      theta = cssv[rho] / (rho + 1)
      return np.maximum(v - theta, 0)
  \<close>
  \<^verbatim>\<open>np.nonzero(...)[-1]\<close> is the array of the indices at which the comparison holds,
  in increasing order; its \<^verbatim>\<open>[-1]\<close> is the last of them and raises IndexError when
  there is none. Every operation is the one of the arithmetic \<open>fl\<close>.
\<close>

definition project_onto_simplex :: "'f float_ops \<Rightarrow> 'f list \<Rightarrow> error + 'f list" where
  "project_onto_simplex fl v =
     (let n = length v;
          u = rev (f_sort fl v);
          cssv = map (\<lambda>c. f_sub fl c (f_of_nat fl 1)) (cumsum fl u);
          idx = filter (\<lambda>k. f_less fl (f_div fl (cssv ! k) (f_of_nat fl (k + 1))) (u ! k)) [0..<n]
      in case idx of
           [] \<Rightarrow> Inl IndexError
         | _ # _ \<Rightarrow>
             (let rho = last idx;
                  theta = f_div fl (cssv ! rho) (f_of_nat fl (rho + 1))
              in Inr (map (\<lambda>a. f_max fl (f_sub fl a theta) (f_of_nat fl 0)) v)))"

subsection \<open>Projected subgradient descent\<close>

text \<open>
  \<^verbatim>\<open>L = np.sqrt(np.linalg.eigvals(A.T @ A)[0])\<close>. The eigenvalue routine belongs to
  numpy, not to the notebook: it is the parameter \<open>eigvals\<close>, from a square matrix to the
  list of the eigenvalues it returns. The root of a negative number is \<^verbatim>\<open>nan\<close>.
\<close>

definition pgd_L :: "(matrix \<Rightarrow> real list) \<Rightarrow> matrix \<Rightarrow> error + real option" where
  "pgd_L eigvals A =
     (case eigvals (AtA A) of
        [] \<Rightarrow> Inl IndexError
      | lam # _ \<Rightarrow> Inr (if lam < 0 then None else Some (sqrt lam)))"

text \<open>
  \<^verbatim>\<open>
  R = 1
  if epsilon is not None:
      T = (R*L/epsilon)**2
      alpha = (R/L)*np.sqrt(1/T)
      T = round(T)
  else:
      alpha = (R/L)*np.sqrt(1/T)
  \<close>
  The result is the horizon and the step size. Dividing a numpy float by zero gives
  \<^verbatim>\<open>inf\<close> or \<^verbatim>\<open>nan\<close> and goes on; \<^verbatim>\<open>round\<close> raises ValueError on
  \<^verbatim>\<open>nan\<close> and OverflowError on \<^verbatim>\<open>inf\<close>; \<^verbatim>\<open>1/T\<close> on the integer \<open>0\<close>
  raises ZeroDivisionError.
\<close>

fun pgd_schedule :: "real option \<Rightarrow> real option \<Rightarrow> int option \<Rightarrow> error + (int \<times> real option)" where
  "pgd_schedule L (Some epsilon) T =
     (case L of
        None \<Rightarrow> Inl ValueError
      | Some l \<Rightarrow>
          if epsilon = 0 then (if l = 0 then Inl ValueError else Inl OverflowError)
          else
            (let R = 1; T0 = (R * l / epsilon)\<^sup>2
             in if T0 = 0 then Inr (py_round T0, None)
                else Inr (py_round T0, Some ((R / l) * sqrt (1 / T0)))))"
| "pgd_schedule L None (Some T) =
     (if T = 0 then Inl ZeroDivisionError
      else case L of
        None \<Rightarrow> Inr (T, None)
      | Some l \<Rightarrow>
          (let R = 1
           in if l = 0 \<or> T < 0 then Inr (T, None)
              else Inr (T, Some ((R / l) * sqrt (1 / real_of_int T)))))"
| "pgd_schedule L None None = Inl AssertionError"

definition pgd_setup ::
  "(matrix \<Rightarrow> real list) \<Rightarrow> matrix \<Rightarrow> real option \<Rightarrow> int option \<Rightarrow> error + (int \<times> real option)" where
  "pgd_setup eigvals A epsilon T =
     (case pgd_L eigvals A of
        Inl e \<Rightarrow> Inl e
      | Inr L \<Rightarrow> pgd_schedule L epsilon T)"

text \<open>
  One pass of the loop body:
  \<^verbatim>\<open>
  yi = x_gd[:,i] - alpha * subgrad(A, b, x_gd[:,i])
  x_gd[:,i+1] = project_onto_simplex(yi)
  \<close>
  With a step size that is not finite every entry of \<^verbatim>\<open>yi\<close> is infinite or
  \<^verbatim>\<open>nan\<close>, no comparison in the projection holds, and its \<^verbatim>\<open>[-1]\<close> raises.
  The projection computes in the arithmetic \<open>fl\<close>.
\<close>

definition pgd_step ::
  "real float_ops \<Rightarrow> real option \<Rightarrow> matrix \<Rightarrow> vec \<Rightarrow> vec \<Rightarrow> error + vec" where
  "pgd_step fl alpha A b x =
     (case subgrad A b x of
        Inl e \<Rightarrow> Inl e
      | Inr g \<Rightarrow>
          (case alpha of
             None \<Rightarrow> Inl IndexError
           | Some a \<Rightarrow> project_onto_simplex fl (map2 (\<lambda>xi gi. xi - a * gi) x g)))"

text \<open>\<^verbatim>\<open>for i in range(T-1)\<close>: the iterates after the one given, in order.\<close>

fun pgd_loop ::
  "real float_ops \<Rightarrow> nat \<Rightarrow> real option \<Rightarrow> matrix \<Rightarrow> vec \<Rightarrow> vec \<Rightarrow> error + vec list" where
  "pgd_loop fl 0 alpha A b x = Inr []"
| "pgd_loop fl (Suc k) alpha A b x =
     (case pgd_step fl alpha A b x of
        Inl e \<Rightarrow> Inl e
      | Inr x' \<Rightarrow>
          (case pgd_loop fl k alpha A b x' of
             Inl e \<Rightarrow> Inl e
           | Inr xs \<Rightarrow> Inr (x' # xs)))"

text \<open>
  \<^verbatim>\<open>pgd(A, b, x, epsilon=None, T=None)\<close>. The result \<^verbatim>\<open>x_gd\<close> is an \<open>m \<times> T\<close> array
  whose columns are the iterates; the embedding returns the list of the columns.
  \<^verbatim>\<open>np.zeros((m, T))\<close> raises ValueError for a negative \<open>T\<close>, and the assignment to
  column \<open>0\<close> raises IndexError when \<open>T = 0\<close>.
\<close>

definition pgd ::
  "real float_ops \<Rightarrow> (matrix \<Rightarrow> real list) \<Rightarrow> matrix \<Rightarrow> vec \<Rightarrow> vec \<Rightarrow> real option \<Rightarrow> int option
     \<Rightarrow> error + vec list" where
  "pgd fl eigvals A b x epsilon T =
     (if epsilon = None \<and> T = None then Inl AssertionError
      else
        (let m = length x
         in case pgd_setup eigvals A epsilon T of
              Inl e \<Rightarrow> Inl e
            | Inr (T', alpha) \<Rightarrow>
                if T' < 0 then Inl ValueError
                else if T' = 0 then Inl IndexError
                else
                  (case pgd_loop fl (nat T' - 1) alpha A b (uniform m) of
                     Inl e \<Rightarrow> Inl e
                   | Inr xs \<Rightarrow> Inr (uniform m # xs))))"

subsection \<open>Mirror descent\<close>

text \<open>
  \<^verbatim>\<open>L = 1/m*np.max(np.sum(np.abs(A), axis=0))\<close> with \<^verbatim>\<open>m = len(x)\<close>.
  \<^verbatim>\<open>1/m\<close> divides Python integers and raises for \<open>m = 0\<close>; \<^verbatim>\<open>np.max\<close> raises
  ValueError on an array without entries.
\<close>

definition mda_L :: "matrix \<Rightarrow> vec \<Rightarrow> error + real" where
  "mda_L A x =
     (if length x = 0 then Inl ZeroDivisionError
      else case map (\<lambda>j. sum_list (map abs (column A j))) [0..<ncols A] of
             [] \<Rightarrow> Inl ValueError
           | c # cs \<Rightarrow> Inr (1 / real (length x) * fold max cs c))"

text \<open>
  \<^verbatim>\<open>
  R = np.sqrt(np.log(m))
  rho = 1
  if epsilon is not None:
      T = (R*L/epsilon)**2*2/rho
      alpha = ((R/L) * np.sqrt(2*rho / T))
      T = round(T)
  else:
      alpha = ((R/L) * np.sqrt(2*rho / T))
  \<close>
\<close>

fun mda_schedule :: "real \<Rightarrow> real \<Rightarrow> real option \<Rightarrow> int option \<Rightarrow> error + (int \<times> real option)" where
  "mda_schedule L R (Some epsilon) T =
     (let rho = 1
      in if epsilon = 0 then (if R * L = 0 then Inl ValueError else Inl OverflowError)
         else
           (let T0 = (R * L / epsilon)\<^sup>2 * 2 / rho
            in if T0 = 0 then Inr (py_round T0, None)
               else Inr (py_round T0, Some ((R / L) * sqrt (2 * rho / T0)))))"
| "mda_schedule L R None (Some T) =
     (let rho = 1
      in if T = 0 then Inl ZeroDivisionError
         else if L = 0 \<or> T < 0 then Inr (T, None)
         else Inr (T, Some ((R / L) * sqrt (2 * rho / real_of_int T))))"
| "mda_schedule L R None None = Inl AssertionError"

definition mda_setup :: "matrix \<Rightarrow> vec \<Rightarrow> real option \<Rightarrow> int option \<Rightarrow> error + (int \<times> real option)" where
  "mda_setup A x epsilon T =
     (case mda_L A x of
        Inl e \<Rightarrow> Inl e
      | Inr L \<Rightarrow> mda_schedule L (sqrt (ln (real (length x)))) epsilon T)"

text \<open>
  One pass of the loop body:
  \<^verbatim>\<open>
  g = subgrad(A, b, x_md[:,i])
  yi = x_md[:,i] * np.exp(-alpha * g)
  x_md[:,i+1] = yi / np.sum(yi)
  \<close>
  Nothing here raises: a step size or an iterate that is not finite, and a zero sum,
  make the next column not finite, and the loop goes on.
\<close>

definition mda_step :: "real option \<Rightarrow> matrix \<Rightarrow> vec \<Rightarrow> vec option \<Rightarrow> error + vec option" where
  "mda_step alpha A b xo =
     (case xo of
        None \<Rightarrow> Inr None
      | Some x \<Rightarrow>
          (case subgrad A b x of
             Inl e \<Rightarrow> Inl e
           | Inr g \<Rightarrow>
               (case alpha of
                  None \<Rightarrow> Inr None
                | Some a \<Rightarrow>
                    (let yi = map2 (\<lambda>xi gi. xi * exp (- a * gi)) x g;
                         s = sum_list yi
                     in if s = 0 then Inr None else Inr (Some (map (\<lambda>y. y / s) yi))))))"

fun mda_loop :: "nat \<Rightarrow> real option \<Rightarrow> matrix \<Rightarrow> vec \<Rightarrow> vec option \<Rightarrow> error + vec option list" where
  "mda_loop 0 alpha A b x = Inr []"
| "mda_loop (Suc k) alpha A b x =
     (case mda_step alpha A b x of
        Inl e \<Rightarrow> Inl e
      | Inr x' \<Rightarrow>
          (case mda_loop k alpha A b x' of
             Inl e \<Rightarrow> Inl e
           | Inr xs \<Rightarrow> Inr (x' # xs)))"

definition mda ::
  "matrix \<Rightarrow> vec \<Rightarrow> vec \<Rightarrow> real option \<Rightarrow> int option \<Rightarrow> error + vec option list" where
  "mda A b x epsilon T =
     (if epsilon = None \<and> T = None then Inl AssertionError
      else
        (let m = length x
         in case mda_setup A x epsilon T of
              Inl e \<Rightarrow> Inl e
            | Inr (T', alpha) \<Rightarrow>
                if T' < 0 then Inl ValueError
                else if T' = 0 then Inl IndexError
                else
                  (case mda_loop (nat T' - 1) alpha A b (Some (uniform m)) of
                     Inl e \<Rightarrow> Inl e
                   | Inr xs \<Rightarrow> Inr (Some (uniform m) # xs))))"

subsection \<open>The data model of the specification\<close>

text \<open>A problem instance: \<open>A\<close> is \<open>n \<times> m\<close> with \<open>n, m \<ge> 1\<close>, \<open>b\<close> has length \<open>n\<close>, \<open>x\<close> length \<open>m\<close>.\<close>

definition ProblemInstance :: "nat \<Rightarrow> nat \<Rightarrow> matrix \<Rightarrow> vec \<Rightarrow> vec \<Rightarrow> bool" where
  "ProblemInstance n m A b x \<longleftrightarrow>
     1 \<le> n \<and> 1 \<le> m \<and> length A = n \<and> list_all (\<lambda>r. length r = m) A \<and> length b = n \<and> length x = m"

text \<open>A point of the simplex: length \<open>m\<close>, no negative entry, entries summing to one.\<close>

definition SimplexPoint :: "nat \<Rightarrow> vec \<Rightarrow> bool" where
  "SimplexPoint m p \<longleftrightarrow> length p = m \<and> list_all (\<lambda>v. 0 \<le> v) p \<and> sum_list p = 1"

definition SimplexIterate :: "nat \<Rightarrow> vec option \<Rightarrow> bool" where
  "SimplexIterate m it = (case it of None \<Rightarrow> False | Some p \<Rightarrow> SimplexPoint m p)"

text \<open>
  The eigenvalues of a diagonal matrix are its diagonal entries, and for a diagonal
  matrix the eigenvalue routine returns them in the order of the diagonal. The concrete
  instances below use it on diagonal matrices.
\<close>

definition diag_eigvals :: "matrix \<Rightarrow> real list" where
  "diag_eigvals M = map (\<lambda>i. M ! i ! i) [0..<length M]"


subsection \<open>The formulas as the specification words them\<close>

text \<open>
  The specification's objective and subgradient, for comparison with the code: the mean
  over the \<open>n\<close> rows of \<open>A\<close>.
\<close>

definition spec_objective :: "matrix \<Rightarrow> vec \<Rightarrow> vec \<Rightarrow> real" where
  "spec_objective A b x = (1 / real (length A)) * sum_list (map2 (\<lambda>a bi. \<bar>dot a x - bi\<bar>) A b)"

definition spec_subgradient :: "matrix \<Rightarrow> vec \<Rightarrow> vec \<Rightarrow> vec" where
  "spec_subgradient A b x =
     map (\<lambda>v. (1 / real (length A)) * v) (transpose_matvec A (map sgn (map2 (-) (matvec A x) b)))"

text \<open>
  The specification's Lipschitz proxies: for \<^verbatim>\<open>pgd\<close> the root of the largest
  eigenvalue of \<open>A\<^sup>T A\<close>, for \<^verbatim>\<open>mda\<close> the largest column sum of absolute values
  divided by the number \<open>n\<close> of rows; and its step size for \<^verbatim>\<open>pgd\<close> with a fixed
  horizon, \<open>(R / L) sqrt(1 / T)\<close> with \<open>R = 1\<close>.
\<close>

definition spec_pgd_L :: "(matrix \<Rightarrow> real list) \<Rightarrow> matrix \<Rightarrow> real" where
  "spec_pgd_L eigvals A = sqrt (Max (set (eigvals (AtA A))))"

definition spec_pgd_alpha :: "(matrix \<Rightarrow> real list) \<Rightarrow> matrix \<Rightarrow> int \<Rightarrow> real" where
  "spec_pgd_alpha eigvals A T = (1 / spec_pgd_L eigvals A) * sqrt (1 / real_of_int T)"

definition spec_mda_L :: "matrix \<Rightarrow> real" where
  "spec_mda_L A =
     (1 / real (length A)) * Max (set (map (\<lambda>j. sum_list (map abs (column A j))) [0..<ncols A]))"

subsection \<open>Auxiliary notions\<close>



text \<open>
  A run of \<^verbatim>\<open>project_onto_simplex\<close> on \<open>v\<close> in the arithmetic \<open>fl\<close> without rounding:
  the sort, the cumulative sum, the subtraction of \<open>1\<close>, the divisions, the comparisons,
  and the final subtraction and maximum give on this input what the arithmetic without
  rounding gives.
\<close>

definition no_rounding :: "real float_ops \<Rightarrow> vec \<Rightarrow> bool" where
  "no_rounding fl v \<longleftrightarrow>
     (let n = length v;
          u = rev (sort v);
          cs = cumsum exact_ops u;
          cssv = map (\<lambda>c. c - 1) cs;
          q = (\<lambda>k. cssv ! k / real (k + 1));
          rho = last (filter (\<lambda>k. q k < u ! k) [0..<n]);
          theta = q rho
      in f_sort fl v = sort v
       \<and> cumsum fl u = cs
       \<and> map (\<lambda>c. f_sub fl c (f_of_nat fl 1)) cs = cssv
       \<and> list_all (\<lambda>k. f_div fl (cssv ! k) (f_of_nat fl (k + 1)) = q k) [0..<n]
       \<and> list_all (\<lambda>k. f_less fl (q k) (u ! k) = (q k < u ! k)) [0..<n]
       \<and> list_all (\<lambda>a. f_max fl (f_sub fl a theta) (f_of_nat fl 0) = max (a - theta) 0) v)"



section \<open>Objective and subgradient: the normaliser\<close>

text \<open>
  C2. The claim: \<^verbatim>\<open>objective\<close> returns \<open>(1/n) \<Sum>\<^sub>i |a\<^sub>i\<^sup>T x - b\<^sub>i|\<close> with \<open>n\<close> the number of
  rows of \<open>A\<close>. The code divides by \<^verbatim>\<open>len(x)\<close>, the number of columns. For the two
  observations \<open>a\<^sub>1 = a\<^sub>2 = (1)\<close>, \<open>b = (0, 0)\<close> and \<open>x = (1)\<close> the residuals are \<open>1\<close> and \<open>1\<close>:
  the code returns their sum \<open>2\<close>, the claimed mean is \<open>1\<close>.
\<close>

theorem objective_divides_by_len_x:
  "objective [[1], [1]] [0, 0] [1] = Inr 2 \<and> spec_objective [[1], [1]] [0, 0] [1] = 1"
  by (simp add: objective_def spec_objective_def matvec_def dot_def)

text \<open>
  C3. The claim: \<^verbatim>\<open>subgrad\<close> returns \<open>(1/n) A\<^sup>T sign(A x - b)\<close> with \<open>n\<close> the number of rows
  of \<open>A\<close> and \<open>sign(0) = 0\<close>. The code divides by \<^verbatim>\<open>len(x)\<close> here too: on the same
  instance it returns \<open>(2)\<close>, the claimed subgradient is \<open>(1)\<close>.
\<close>

theorem subgrad_divides_by_len_x:
  "subgrad [[1], [1]] [0, 0] [1] = Inr [2] \<and> spec_subgradient [[1], [1]] [0, 0] [1] = [1]"
  by (simp add: subgrad_def spec_subgradient_def matvec_def dot_def transpose_matvec_def
      ncols_def column_def)

section \<open>The projection onto the simplex\<close>

subsection \<open>The last index at which a condition holds\<close>

lemma last_filter_upt:
  assumes "filter P [0..<n] \<noteq> []"
  shows "last (filter P [0..<n]) < n \<and> P (last (filter P [0..<n]))
         \<and> (\<forall>k. last (filter P [0..<n]) < k \<and> k < n \<longrightarrow> \<not> P k)"
  using assms
proof (induction n)
  case 0
  then show ?case by simp
next
  case (Suc n)
  show ?case
  proof (cases "P n")
    case True
    then have "last (filter P [0..<Suc n]) = n" by simp
    moreover have "\<not> P k" if "n < k \<and> k < Suc n" for k
      using that by arith
    moreover have "n < Suc n" by simp
    ultimately show ?thesis using True by metis
  next
    case False
    with Suc.prems have ne: "filter P [0..<n] \<noteq> []" by simp
    from False have eq: "filter P [0..<Suc n] = filter P [0..<n]" by simp
    let ?r = "last (filter P [0..<n])"
    from Suc.IH [OF ne]
    have r: "?r < n" "P ?r" and after: "\<And>k. ?r < k \<Longrightarrow> k < n \<Longrightarrow> \<not> P k" by blast+
    have "\<not> P k" if "?r < k \<and> k < Suc n" for k
    proof (cases "k = n")
      case True
      with False show ?thesis by simp
    next
      case False
      with that have "k < n" by arith
      with that after show ?thesis by blast
    qed
    moreover have "?r < Suc n" using r(1) by arith
    ultimately show ?thesis unfolding eq using r(2) by blast
  qed
qed

lemma last_filter_upt_Max:
  assumes "filter P [0..<n] \<noteq> []"
  shows "last (filter P [0..<n]) = Max {k. k < n \<and> P k}"
proof -
  let ?r = "last (filter P [0..<n])"
  from last_filter_upt [OF assms]
  have r: "?r < n" "P ?r" and after: "\<And>k. ?r < k \<Longrightarrow> k < n \<Longrightarrow> \<not> P k" by blast+
  have "Max {k. k < n \<and> P k} = ?r"
  proof (rule Max_eqI)
    show "finite {k. k < n \<and> P k}" by simp
    show "?r \<in> {k. k < n \<and> P k}" using r by simp
    fix y assume "y \<in> {k. k < n \<and> P k}"
    then have "y < n" "P y" by simp_all
    with after [of y] have "\<not> ?r < y" by blast
    then show "y \<le> ?r" by arith
  qed
  then show ?thesis by (rule sym)
qed


lemma exact_ops_fields:
  "f_add exact_ops = (+)" "f_sub exact_ops = (-)" "f_div exact_ops = (/)"
  "f_less exact_ops = (<)" "f_max exact_ops = max" "f_sort exact_ops = sort"
  "f_of_nat exact_ops = real"
  by (simp_all add: exact_ops_def)

text \<open>
  C6. \<^verbatim>\<open>project_onto_simplex([3, 1, -2])\<close> is \<open>[1, 0, 0]\<close>; the one quotient of this run
  that binary64 rounds, \<open>1/3\<close>, is only compared with \<open>-2\<close>. In every arithmetic and for
  every vector: when no index satisfies
  \<open>u[\<rho>] > cssv[\<rho>] / (\<rho> + 1)\<close> the projection raises; otherwise it takes the largest index
  \<open>\<rho>\<close> that does, sets \<open>\<theta> = cssv[\<rho>] / (\<rho> + 1)\<close> and returns \<open>max(v - \<theta>, 0)\<close> entry by
  entry.
\<close>

theorem project_onto_simplex_largest_index:
  "project_onto_simplex exact_ops [3, 1, - 2] = Inr [1, 0, 0]
   \<and> (let n = length v;
          u = rev (f_sort fl v);
          cssv = map (\<lambda>c. f_sub fl c (f_of_nat fl 1)) (cumsum fl u);
          Q = {k. k < n \<and> f_less fl (f_div fl (cssv ! k) (f_of_nat fl (k + 1))) (u ! k)};
          rho = Max Q;
          theta = f_div fl (cssv ! rho) (f_of_nat fl (rho + 1))
      in project_onto_simplex fl v =
           (if Q = {} then Inl IndexError
            else Inr (map (\<lambda>a. f_max fl (f_sub fl a theta) (f_of_nat fl 0)) v)))"
proof -
  let ?u = "rev (f_sort fl v)"
  let ?cssv = "map (\<lambda>c. f_sub fl c (f_of_nat fl 1)) (cumsum fl ?u)"
  let ?P = "\<lambda>k. f_less fl (f_div fl (?cssv ! k) (f_of_nat fl (k + 1))) (?u ! k)"
  let ?idx = "filter ?P [0..<length v]"
  let ?Q = "{k. k < length v \<and> ?P k}"
  let ?out = "\<lambda>rho. Inr (map (\<lambda>a. f_max fl (f_sub fl a (f_div fl (?cssv ! rho) (f_of_nat fl (rho + 1))))
                                  (f_of_nat fl 0)) v) :: error + 'a list"
  have unfold: "project_onto_simplex fl v
                  = (case ?idx of [] \<Rightarrow> Inl IndexError | _ # _ \<Rightarrow> ?out (last ?idx))"
    unfolding project_onto_simplex_def Let_def ..
  have Q: "?Q = set ?idx" by auto
  have general: "project_onto_simplex fl v = (if ?Q = {} then Inl IndexError else ?out (Max ?Q))"
  proof (cases "?idx = []")
    case True
    have "?Q = {}" unfolding Q set_empty by (rule True)
    moreover have "project_onto_simplex fl v = Inl IndexError"
      unfolding unfold True list.case ..
    ultimately show ?thesis by simp
  next
    case False
    have ne: "?Q \<noteq> {}" unfolding Q set_empty by (rule False)
    from False obtain i rest where idx: "?idx = i # rest" by (cases ?idx) blast+
    have "project_onto_simplex fl v = ?out (last ?idx)"
      unfolding unfold idx list.case ..
    also have "last ?idx = Max ?Q"
      by (rule last_filter_upt_Max [OF False])
    finally show ?thesis using ne by simp
  qed
  have example: "project_onto_simplex exact_ops [3, 1, - 2] = Inr [1, 0, 0]"
    by (simp add: project_onto_simplex_def cumsum_def exact_ops_def Let_def)
  show ?thesis
    unfolding Let_def using example general by (rule conjI)
qed

subsection \<open>The projection without rounding\<close>

















subsection \<open>Vectors of negative entries\<close>


lemma no_rounding_exact: "no_rounding exact_ops v"
  unfolding no_rounding_def Let_def exact_ops_fields list_all_iff by simp




section \<open>The trajectory on the zero matrix\<close>

text \<open>
  C1. The claim: for every problem instance and every horizon \<open>T \<ge> 1\<close> every iterate
  returned by \<^verbatim>\<open>pgd\<close> and by \<^verbatim>\<open>mda\<close> is a point of the simplex. On the \<open>1 \<times> 2\<close> zero
  matrix \<^verbatim>\<open>mda\<close> computes \<open>L = 0\<close>, a step size \<open>R / L\<close> that is infinite, a subgradient
  \<open>0\<close> and the exponent \<open>-inf * 0\<close>, which is not a number: with \<open>T = 2\<close> it returns a
  trajectory whose second iterate is not a number in every entry.
\<close>

theorem mda_zero_matrix_leaves_simplex:
  "ProblemInstance 1 2 [[0, 0]] [0] [1 / 2, 1 / 2]
   \<and> mda [[0, 0]] [0] [1 / 2, 1 / 2] None (Some 2) = Inr [Some [1 / 2, 1 / 2], None]
   \<and> \<not> list_all (SimplexIterate 2) [Some [1 / 2, 1 / 2], None]"
  by (simp add: ProblemInstance_def SimplexIterate_def mda_def mda_setup_def mda_L_def
      ncols_def column_def mda_step_def subgrad_def uniform_def matvec_def dot_def
      transpose_matvec_def)

section \<open>The Lipschitz proxies of the schedules\<close>

text \<open>
  C4. The claim: \<^verbatim>\<open>pgd\<close> uses \<open>L = sqrt(\<lambda>\<^sub>m\<^sub>a\<^sub>x(A\<^sup>T A))\<close>. The code takes the first eigenvalue
  that the routine returns, not the largest. For \<open>A = diag(1, 2)\<close> the eigenvalues of
  \<open>A\<^sup>T A\<close> come as \<open>(1, 4)\<close>: with \<open>T = 4\<close> the code has \<open>L = 1\<close> and the step size \<open>1/2\<close>, the
  claim has \<open>L = 2\<close> and the step size \<open>1/4\<close>.
\<close>

theorem pgd_takes_first_eigenvalue:
  "diag_eigvals (AtA [[1, 0], [0, 2]]) = [1, 4]
   \<and> pgd_L diag_eigvals [[1, 0], [0, 2]] = Inr (Some 1)
   \<and> pgd_setup diag_eigvals [[1, 0], [0, 2]] None (Some 4) = Inr (4, Some (1 / 2))
   \<and> spec_pgd_L diag_eigvals [[1, 0], [0, 2]] = 2
   \<and> spec_pgd_alpha diag_eigvals [[1, 0], [0, 2]] 4 = 1 / 4"
proof -
  have ev: "diag_eigvals (AtA [[1, 0], [0, 2]]) = [1, 4]"
    by (simp add: diag_eigvals_def AtA_def ncols_def column_def dot_def eval_nat_numeral)
  have s: "sqrt (1 / 4) = 1 / 2"
    by (simp add: real_sqrt_divide)
  have L: "pgd_L diag_eigvals [[1, 0], [0, 2]] = Inr (Some 1)"
    by (simp add: pgd_L_def ev)
  have st: "pgd_setup diag_eigvals [[1, 0], [0, 2]] None (Some 4) = Inr (4, Some (1 / 2))"
    by (simp add: pgd_setup_def L s)
  have "Max (set [1, 4 :: real]) = 4" by simp
  then have sL: "spec_pgd_L diag_eigvals [[1, 0], [0, 2]] = 2"
    by (simp add: spec_pgd_L_def ev)
  have "spec_pgd_alpha diag_eigvals [[1, 0], [0, 2]] 4 = 1 / 4"
    by (simp add: spec_pgd_alpha_def sL s)
  with ev L st sL show ?thesis by blast
qed

text \<open>
  C5. The claim: \<^verbatim>\<open>mda\<close> uses \<open>L = (1/n) max\<^sub>j \<Sum>\<^sub>i |A[i,j]|\<close> with \<open>n\<close> the number of rows.
  The code divides by \<^verbatim>\<open>len(x)\<close>, the number of columns. For the \<open>1 \<times> 2\<close> matrix
  \<open>A = ((2, 2))\<close> the code has \<open>L = 1\<close>, the claim \<open>L = 2\<close>.
\<close>

theorem mda_L_divides_by_len_x:
  "mda_L [[2, 2]] [1 / 2, 1 / 2] = Inr 1 \<and> spec_mda_L [[2, 2]] = 2"
  by (simp add: mda_L_def spec_mda_L_def ncols_def column_def)


section \<open>The arguments \<open>epsilon\<close> and \<open>T\<close>\<close>

lemma pgd_setup_epsilon_first:
  "pgd_setup eigvals A (Some epsilon) (Some T) = pgd_setup eigvals A (Some epsilon) None"
  by (cases "pgd_L eigvals A") (simp_all add: pgd_setup_def)

lemma mda_setup_epsilon_first:
  "mda_setup A x (Some epsilon) (Some T) = mda_setup A x (Some epsilon) None"
  by (cases "mda_L A x") (simp_all add: mda_setup_def)

text \<open>
  C9. With neither \<open>epsilon\<close> nor \<open>T\<close> both optimizers raise at the assertion, before
  anything else is computed. With both, \<open>T\<close> is overwritten by the horizon derived from
  \<open>epsilon\<close>: the call returns what the call with \<open>epsilon\<close> alone returns.
\<close>

theorem epsilon_and_T_arguments:
  "pgd fl eigvals A b x None None = Inl AssertionError
   \<and> mda A b x None None = Inl AssertionError
   \<and> pgd fl eigvals A b x (Some epsilon) (Some T) = pgd fl eigvals A b x (Some epsilon) None
   \<and> mda A b x (Some epsilon) (Some T) = mda A b x (Some epsilon) None"
  by (simp add: pgd_def mda_def pgd_setup_epsilon_first mda_setup_epsilon_first)

section \<open>The initial point\<close>

lemma mda_setup_length_only:
  assumes "length x = length x'"
  shows "mda_setup A x epsilon T = mda_setup A x' epsilon T"
  unfolding mda_setup_def mda_L_def assms ..

lemma pgd_first_iterate:
  "pgd fl eigvals A b x epsilon T = Inr traj \<Longrightarrow> traj \<noteq> [] \<and> hd traj = uniform (length x)"
  by (auto simp: pgd_def Let_def split: if_splits sum.splits prod.splits)

lemma mda_first_iterate:
  "mda A b x epsilon T = Inr traj \<Longrightarrow> traj \<noteq> [] \<and> hd traj = Some (uniform (length x))"
  by (auto simp: mda_def Let_def split: if_splits sum.splits prod.splits)

text \<open>
  C10. For a fixed horizon \<open>T \<ge> 1\<close> the result of \<^verbatim>\<open>pgd\<close> and of \<^verbatim>\<open>mda\<close> depends on the
  argument \<open>x\<close> through its length only, and the first iterate of a returned trajectory
  is the uniform vector \<open>(1/m, \<dots>, 1/m)\<close>, whatever the entries of \<open>x\<close>.
\<close>

theorem initial_point_only_through_length:
  assumes "length x = length x'" and "1 \<le> T"
  shows "pgd fl eigvals A b x None (Some T) = pgd fl eigvals A b x' None (Some T)
       \<and> mda A b x None (Some T) = mda A b x' None (Some T)
       \<and> (\<forall>traj. pgd fl eigvals A b x None (Some T) = Inr traj
             \<longrightarrow> traj \<noteq> [] \<and> hd traj = uniform (length x))
       \<and> (\<forall>traj. mda A b x None (Some T) = Inr traj
             \<longrightarrow> traj \<noteq> [] \<and> hd traj = Some (uniform (length x)))"
proof -
  have "pgd fl eigvals A b x None (Some T) = pgd fl eigvals A b x' None (Some T)"
    using assms(1) by (simp add: pgd_def)
  moreover have "mda A b x None (Some T) = mda A b x' None (Some T)"
    using assms(1) mda_setup_length_only [OF assms(1)] by (simp add: mda_def)
  ultimately show ?thesis
    using pgd_first_iterate mda_first_iterate by blast
qed

theorem initial_point_only_through_length_witness:
  "length [1, 0 :: real] = length [1 / 3, 2 / 3 :: real] \<and> (1 :: int) \<le> 4
   \<and> pgd exact_ops diag_eigvals [[1, 0], [0, 1]] [1 / 2, 1 / 2] [1, 0] None (Some 4)
       = pgd exact_ops diag_eigvals [[1, 0], [0, 1]] [1 / 2, 1 / 2] [1 / 3, 2 / 3] None (Some 4)
   \<and> mda [[1, 0], [0, 1]] [1 / 2, 1 / 2] [1, 0] None (Some 4)
       = mda [[1, 0], [0, 1]] [1 / 2, 1 / 2] [1 / 3, 2 / 3] None (Some 4)
   \<and> pgd exact_ops diag_eigvals [[1, 0], [0, 1]] [1 / 2, 1 / 2] [1, 0] None (Some 4)
       = Inr [[1 / 2, 1 / 2], [1 / 2, 1 / 2], [1 / 2, 1 / 2], [1 / 2, 1 / 2]]
   \<and> mda [[1, 0], [0, 1]] [1 / 2, 1 / 2] [1, 0] None (Some 4)
       = Inr [Some [1 / 2, 1 / 2], Some [1 / 2, 1 / 2], Some [1 / 2, 1 / 2], Some [1 / 2, 1 / 2]]
   \<and> uniform (length [1, 0 :: real]) = [1 / 2, 1 / 2]"
proof -
  have h1: "length [1, 0 :: real] = length [1 / 3, 2 / 3 :: real]" by simp
  have h2: "(1 :: int) \<le> 4" by simp
  have u: "uniform (length [1, 0 :: real]) = [1 / 2, 1 / 2]"
    by (simp add: uniform_def)
  have g: "subgrad [[1, 0], [0, 1]] [1 / 2, 1 / 2] [1 / 2, 1 / 2] = Inr [0, 0]"
    by (simp add: subgrad_def matvec_def dot_def transpose_matvec_def ncols_def column_def)
  have p: "project_onto_simplex exact_ops [1 / 2, 1 / 2] = Inr [1 / 2, 1 / 2]"
    by (simp add: project_onto_simplex_def cumsum_def exact_ops_def Let_def)
  have ps: "pgd_step exact_ops (Some a) [[1, 0], [0, 1]] [1 / 2, 1 / 2] [1 / 2, 1 / 2]
              = Inr [1 / 2, 1 / 2]" for a
    by (simp add: pgd_step_def g p)
  have ms: "mda_step (Some a) [[1, 0], [0, 1]] [1 / 2, 1 / 2] (Some [1 / 2, 1 / 2])
              = Inr (Some [1 / 2, 1 / 2])" for a
    by (simp add: mda_step_def g)
  have pl: "pgd_loop exact_ops 3 (Some a) [[1, 0], [0, 1]] [1 / 2, 1 / 2] [1 / 2, 1 / 2]
              = Inr [[1 / 2, 1 / 2], [1 / 2, 1 / 2], [1 / 2, 1 / 2]]" for a
    by (simp add: eval_nat_numeral ps)
  have ml: "mda_loop 3 (Some a) [[1, 0], [0, 1]] [1 / 2, 1 / 2] (Some [1 / 2, 1 / 2])
              = Inr [Some [1 / 2, 1 / 2], Some [1 / 2, 1 / 2], Some [1 / 2, 1 / 2]]" for a
    by (simp add: eval_nat_numeral ms)
  have ev: "diag_eigvals (AtA [[1, 0], [0, 1]]) = [1, 1]"
    by (simp add: diag_eigvals_def AtA_def ncols_def column_def dot_def eval_nat_numeral)
  have pst: "pgd_setup diag_eigvals [[1, 0], [0, 1]] None (Some 4) = Inr (4, Some (sqrt (1 / 4)))"
    by (simp add: pgd_setup_def pgd_L_def ev)
  have mst: "mda_setup [[1, 0], [0, 1]] [1, 0] None (Some 4)
               = Inr (4, Some (sqrt (ln 2) / (1 / 2) * sqrt (2 * 1 / 4)))"
    by (simp add: mda_setup_def mda_L_def ncols_def column_def)
  have pe: "pgd exact_ops diag_eigvals [[1, 0], [0, 1]] [1 / 2, 1 / 2] [1, 0] None (Some 4)
              = Inr [[1 / 2, 1 / 2], [1 / 2, 1 / 2], [1 / 2, 1 / 2], [1 / 2, 1 / 2]]"
    unfolding pgd_def Let_def pst u by (simp add: pl)
  have me: "mda [[1, 0], [0, 1]] [1 / 2, 1 / 2] [1, 0] None (Some 4)
              = Inr [Some [1 / 2, 1 / 2], Some [1 / 2, 1 / 2], Some [1 / 2, 1 / 2], Some [1 / 2, 1 / 2]]"
    unfolding mda_def Let_def mst u by (simp add: ml)
  from initial_point_only_through_length [OF h1 h2]
  have "pgd exact_ops diag_eigvals [[1, 0], [0, 1]] [1 / 2, 1 / 2] [1, 0] None (Some 4)
          = pgd exact_ops diag_eigvals [[1, 0], [0, 1]] [1 / 2, 1 / 2] [1 / 3, 2 / 3] None (Some 4)"
    and "mda [[1, 0], [0, 1]] [1 / 2, 1 / 2] [1, 0] None (Some 4)
          = mda [[1, 0], [0, 1]] [1 / 2, 1 / 2] [1 / 3, 2 / 3] None (Some 4)"
    by blast+
  with h1 h2 pe me u show ?thesis by blast
qed

end
